theory Spec2Isabelle
  imports Main
begin

section \<open>Data model\<close>

text \<open>
  Identifiers of documents are the strings the handlers compare
  (\<^verbatim>\<open>like.user.toString() === req.user.id\<close>, \<^verbatim>\<open>comment.id === req.params.comment_id\<close>).
  The sub-documents and documents carry the fields the handlers of
  \<^verbatim>\<open>routes/api/posts.js\<close> and \<^verbatim>\<open>routes/api/auth.js\<close> read and write; the
  creation date, which no handler modelled here touches, is left out.
\<close>

type_synonym oid = string

record like =
  like_user :: oid

record comment =
  cmt_id :: oid
  cmt_user :: oid
  cmt_text :: string
  cmt_name :: string
  cmt_avatar :: string

record post =
  post_user :: oid
  post_text :: string
  post_name :: string
  post_avatar :: string
  likes :: "like list"
  comments :: "comment list"

record user =
  user_id :: oid
  user_name :: string
  user_email :: string
  user_avatar :: string
  user_password :: string

text \<open>
  The store: the collection of posts keyed by \<^verbatim>\<open>_id\<close>, the collection of users
  (searched by e-mail and by id), and a schedule of persistence failures: each call
  that reaches the store consumes the head of \<open>faults\<close>, and \<open>True\<close> there makes
  that call reject. An empty schedule never fails.
\<close>

record db =
  users :: "user list"
  posts :: "oid \<rightharpoonup> post"
  faults :: "bool list"

text \<open>
  The libraries the handlers call and whose code is not part of the repository are
  parameters: whether the driver can cast a request parameter to a document id,
  the e-mail check of the validator, the hash comparison and the token signature
  (\<open>None\<close> when signing reports an error).
\<close>

record ext =
  isObjectId :: "string \<Rightarrow> bool"
  isEmail :: "string \<Rightarrow> bool"
  bcrypt_compare :: "string \<Rightarrow> string \<Rightarrow> bool"
  jwt_sign :: "oid \<Rightarrow> nat \<Rightarrow> string option"

text \<open>
  What a \<^verbatim>\<open>try\<close> block can throw: the driver's cast error (the only one with
  \<^verbatim>\<open>err.kind === 'ObjectId'\<close>), a property read on \<^verbatim>\<open>null\<close>, a rejected store call.
\<close>

datatype exn = CastError | TypeError | StoreError

datatype body =
    Msg string
  | MsgNested string
  | Text string
  | Errors "string list"
  | PostDoc post
  | LikesArr "like list"
  | CommentsArr "comment list"
  | Token string

datatype response = Response nat body

fun status :: "response \<Rightarrow> nat" where
  "status (Response s b) = s"

section \<open>Array operations of the host language\<close>

text \<open>\<^verbatim>\<open>Array.prototype.indexOf\<close>: the first position of the element, \<open>-1\<close> when absent.\<close>

fun indexOf :: "'a list \<Rightarrow> 'a \<Rightarrow> int" where
  "indexOf [] y = - 1"
| "indexOf (x # xs) y =
     (if x = y then 0
      else (let i = indexOf xs y in if i < 0 then - 1 else i + 1))"

text \<open>
  \<^verbatim>\<open>arr.splice(start, 1)\<close>: a negative start counts from the end (clamped at 0), a
  start beyond the end is clamped to the length; one element is removed where there
  is one.
\<close>

definition splice1 :: "int \<Rightarrow> 'a list \<Rightarrow> 'a list" where
  "splice1 start xs =
     (let n = int (length xs);
          s = (if start < 0 then max (n + start) 0 else min start n)
      in take (nat s) xs @ drop (Suc (nat s)) xs)"

section \<open>Store access\<close>

definition tick :: "db \<Rightarrow> bool \<times> db" where
  "tick d = (case faults d of [] \<Rightarrow> (False, d) | f # fs \<Rightarrow> (f, d\<lparr>faults := fs\<rparr>))"

text \<open>The next \<open>n\<close> calls that reach the store do not fail.\<close>

definition store_ok :: "nat \<Rightarrow> db \<Rightarrow> bool" where
  "store_ok n d = (True \<notin> set (take n (faults d)))"

text \<open>
  \<^verbatim>\<open>Post.findById(req.params.post_id)\<close>: the parameter is cast first (a cast error is
  raised without a round trip); then the store answers with the document or \<^verbatim>\<open>null\<close>.
\<close>

definition Post_findById :: "ext \<Rightarrow> db \<Rightarrow> string \<Rightarrow> (exn + post option) \<times> db" where
  "Post_findById x d pid =
     (if \<not> isObjectId x pid then (Inl CastError, d)
      else (case tick d of
              (True, d1) \<Rightarrow> (Inl StoreError, d1)
            | (False, d1) \<Rightarrow> (Inr (posts d1 pid), d1)))"

text \<open>\<^verbatim>\<open>post.save()\<close> and \<^verbatim>\<open>post.remove()\<close> of the document loaded under \<open>pid\<close>.\<close>

definition Post_save :: "db \<Rightarrow> oid \<Rightarrow> post \<Rightarrow> (exn + unit) \<times> db" where
  "Post_save d pid p =
     (case tick d of
        (True, d1) \<Rightarrow> (Inl StoreError, d1)
      | (False, d1) \<Rightarrow> (Inr (), d1\<lparr>posts := (posts d1)(pid \<mapsto> p)\<rparr>))"

definition Post_remove :: "db \<Rightarrow> oid \<Rightarrow> (exn + unit) \<times> db" where
  "Post_remove d pid =
     (case tick d of
        (True, d1) \<Rightarrow> (Inl StoreError, d1)
      | (False, d1) \<Rightarrow> (Inr (), d1\<lparr>posts := (posts d1)(pid := None)\<rparr>))"

text \<open>
  \<^verbatim>\<open>User.findById(req.user.id)\<close> and \<^verbatim>\<open>User.findOne({ email })\<close>. The id comes from
  the verified token, which this server signed over a stored user's id.
\<close>

definition User_findById :: "db \<Rightarrow> oid \<Rightarrow> (exn + user option) \<times> db" where
  "User_findById d uid =
     (case tick d of
        (True, d1) \<Rightarrow> (Inl StoreError, d1)
      | (False, d1) \<Rightarrow> (Inr (find (\<lambda>u. user_id u = uid) (users d1)), d1))"

definition User_findOne :: "db \<Rightarrow> string \<Rightarrow> (exn + user option) \<times> db" where
  "User_findOne d email =
     (case tick d of
        (True, d1) \<Rightarrow> (Inl StoreError, d1)
      | (False, d1) \<Rightarrow> (Inr (find (\<lambda>u. user_email u = email) (users d1)), d1))"

section \<open>The handlers of routes/api/posts.js\<close>

text \<open>
  Each handler is its \<^verbatim>\<open>try\<close> block, which returns the response it sent or the
  exception it threw, and the \<^verbatim>\<open>catch\<close> block that turns the exception into a
  response. \<open>uid\<close> is \<^verbatim>\<open>req.user.id\<close>, the identity the guard resolved.
\<close>

definition server_error :: response where
  "server_error = Response 500 (Text ''Server error!'')"

definition Server_Error :: response where
  "Server_Error = Response 500 (Text ''Server Error!'')"

definition no_post :: response where
  "no_post = Response 404 (Msg ''No post found!'')"

subsection \<open>GET api/posts/:post_id\<close>

definition getById_try :: "ext \<Rightarrow> db \<Rightarrow> string \<Rightarrow> (exn + response) \<times> db" where
  "getById_try x d pid =
     (case Post_findById x d pid of
        (Inl e, d1) \<Rightarrow> (Inl e, d1)
      | (Inr None, d1) \<Rightarrow> (Inr no_post, d1)
      | (Inr (Some p), d1) \<Rightarrow> (Inr (Response 200 (PostDoc p)), d1))"

definition getById :: "ext \<Rightarrow> db \<Rightarrow> string \<Rightarrow> response \<times> db" where
  "getById x d pid =
     (case getById_try x d pid of
        (Inr r, d1) \<Rightarrow> (r, d1)
      | (Inl e, d1) \<Rightarrow> (if e = CastError then no_post else server_error, d1))"

subsection \<open>DELETE api/posts/:post_id\<close>

definition deleteById_try :: "ext \<Rightarrow> db \<Rightarrow> string \<Rightarrow> oid \<Rightarrow> (exn + response) \<times> db" where
  "deleteById_try x d pid uid =
     (case Post_findById x d pid of
        (Inl e, d1) \<Rightarrow> (Inl e, d1)
      | (Inr None, d1) \<Rightarrow> (Inr no_post, d1)
      | (Inr (Some p), d1) \<Rightarrow>
          if post_user p \<noteq> uid
          then (Inr (Response 401 (Msg ''You are note authorized!'')), d1)
          else (case Post_remove d1 pid of
                  (Inl e, d2) \<Rightarrow> (Inl e, d2)
                | (Inr u, d2) \<Rightarrow> (Inr (Response 200 (Msg ''Post removed.'')), d2)))"

definition deleteById :: "ext \<Rightarrow> db \<Rightarrow> string \<Rightarrow> oid \<Rightarrow> response \<times> db" where
  "deleteById x d pid uid =
     (case deleteById_try x d pid uid of
        (Inr r, d1) \<Rightarrow> (r, d1)
      | (Inl e, d1) \<Rightarrow>
          (if e = CastError then Response 404 (MsgNested ''No post found!'')
           else server_error, d1))"

subsection \<open>PUT api/posts/like/:post_id\<close>

definition like_try :: "ext \<Rightarrow> db \<Rightarrow> string \<Rightarrow> oid \<Rightarrow> (exn + response) \<times> db" where
  "like_try x d pid uid =
     (case Post_findById x d pid of
        (Inl e, d1) \<Rightarrow> (Inl e, d1)
      | (Inr None, d1) \<Rightarrow> (Inl TypeError, d1)
      | (Inr (Some p), d1) \<Rightarrow>
          if length (filter (\<lambda>l. like_user l = uid) (likes p)) > 0
          then (Inr (Response 400 (Msg ''You already liked post'')), d1)
          else (let p' = p\<lparr>likes := \<lparr>like_user = uid\<rparr> # likes p\<rparr>
                in case Post_save d1 pid p' of
                     (Inl e, d2) \<Rightarrow> (Inl e, d2)
                   | (Inr u, d2) \<Rightarrow> (Inr (Response 200 (LikesArr (likes p'))), d2)))"

definition like :: "ext \<Rightarrow> db \<Rightarrow> string \<Rightarrow> oid \<Rightarrow> response \<times> db" where
  "like x d pid uid =
     (case like_try x d pid uid of
        (Inr r, d1) \<Rightarrow> (r, d1)
      | (Inl e, d1) \<Rightarrow> (server_error, d1))"

subsection \<open>PUT api/posts/unlike/:post_id\<close>

text \<open>
  \<^verbatim>\<open>removeIndex\<close> is assigned and read with no suspension point in between, so
  that it is a module-wide variable does not show in one request; it is a local
  here.
\<close>

definition unlike_try :: "ext \<Rightarrow> db \<Rightarrow> string \<Rightarrow> oid \<Rightarrow> (exn + response) \<times> db" where
  "unlike_try x d pid uid =
     (case Post_findById x d pid of
        (Inl e, d1) \<Rightarrow> (Inl e, d1)
      | (Inr None, d1) \<Rightarrow> (Inl TypeError, d1)
      | (Inr (Some p), d1) \<Rightarrow>
          if length (filter (\<lambda>l. like_user l = uid) (likes p)) = 0
          then (Inr (Response 400 (Msg ''You dind't lik it before.'')), d1)
          else (let removeIndex = indexOf (map like_user (likes p)) uid;
                    p' = p\<lparr>likes := splice1 removeIndex (likes p)\<rparr>
                in case Post_save d1 pid p' of
                     (Inl e, d2) \<Rightarrow> (Inl e, d2)
                   | (Inr u, d2) \<Rightarrow> (Inr (Response 200 (LikesArr (likes p'))), d2)))"

definition unlike :: "ext \<Rightarrow> db \<Rightarrow> string \<Rightarrow> oid \<Rightarrow> response \<times> db" where
  "unlike x d pid uid =
     (case unlike_try x d pid uid of
        (Inr r, d1) \<Rightarrow> (r, d1)
      | (Inl e, d1) \<Rightarrow> (server_error, d1))"

subsection \<open>PUT api/posts/comment/:post_id\<close>

text \<open>
  The validator rejects an empty text before the \<^verbatim>\<open>try\<close> block. \<open>cid\<close> is the
  id the driver gives the new sub-document.
\<close>

definition addComment_try ::
  "ext \<Rightarrow> db \<Rightarrow> string \<Rightarrow> oid \<Rightarrow> string \<Rightarrow> oid \<Rightarrow> (exn + response) \<times> db" where
  "addComment_try x d pid uid body_text cid =
     (case User_findById d uid of
        (Inl e, d1) \<Rightarrow> (Inl e, d1)
      | (Inr u, d1) \<Rightarrow>
          (case Post_findById x d1 pid of
             (Inl e, d2) \<Rightarrow> (Inl e, d2)
           | (Inr po, d2) \<Rightarrow>
               (case u of
                  None \<Rightarrow> (Inl TypeError, d2)
                | Some usr \<Rightarrow>
                    (let newComment = \<lparr>cmt_id = cid, cmt_user = uid, cmt_text = body_text,
                                       cmt_name = user_name usr, cmt_avatar = user_avatar usr\<rparr>
                     in case po of
                          None \<Rightarrow> (Inl TypeError, d2)
                        | Some p \<Rightarrow>
                            (let p' = p\<lparr>comments := newComment # comments p\<rparr>
                             in case Post_save d2 pid p' of
                                  (Inl e, d3) \<Rightarrow> (Inl e, d3)
                                | (Inr un, d3) \<Rightarrow> (Inr (Response 200 (PostDoc p')), d3))))))"

definition addComment ::
  "ext \<Rightarrow> db \<Rightarrow> string \<Rightarrow> oid \<Rightarrow> string \<Rightarrow> oid \<Rightarrow> response \<times> db" where
  "addComment x d pid uid body_text cid =
     (if body_text = [] then (Response 400 (Errors [''Text is required.'']), d)
      else (case addComment_try x d pid uid body_text cid of
              (Inr r, d1) \<Rightarrow> (r, d1)
            | (Inl e, d1) \<Rightarrow> (Server_Error, d1)))"

subsection \<open>DELETE api/posts/comment/:post_id/:comment_id\<close>

definition removeComment_try ::
  "ext \<Rightarrow> db \<Rightarrow> string \<Rightarrow> string \<Rightarrow> oid \<Rightarrow> (exn + response) \<times> db" where
  "removeComment_try x d pid cid uid =
     (case Post_findById x d pid of
        (Inl e, d1) \<Rightarrow> (Inl e, d1)
      | (Inr None, d1) \<Rightarrow> (Inl TypeError, d1)
      | (Inr (Some p), d1) \<Rightarrow>
          (case find (\<lambda>c. cmt_id c = cid) (comments p) of
             None \<Rightarrow> (Inr (Response 404 (Msg ''Comment does not exist !'')), d1)
           | Some c \<Rightarrow>
               if cmt_user c \<noteq> uid
               then (Inr (Response 401 (Msg ''You are not authorized !'')), d1)
               else (let removeIndex = indexOf (map cmt_user (comments p)) uid;
                         p' = p\<lparr>comments := splice1 removeIndex (comments p)\<rparr>
                     in case Post_save d1 pid p' of
                          (Inl e, d2) \<Rightarrow> (Inl e, d2)
                        | (Inr u, d2) \<Rightarrow>
                            (Inr (Response 200 (CommentsArr (comments p'))), d2))))"

definition removeComment ::
  "ext \<Rightarrow> db \<Rightarrow> string \<Rightarrow> string \<Rightarrow> oid \<Rightarrow> response \<times> db" where
  "removeComment x d pid cid uid =
     (case removeComment_try x d pid cid uid of
        (Inr r, d1) \<Rightarrow> (r, d1)
      | (Inl e, d1) \<Rightarrow> (Server_Error, d1))"

section \<open>The login handler of routes/api/auth.js\<close>

text \<open>
  The handler can write to the response more than once, so its result is the
  trace of what it did, in order: a response written, a token signed, an error
  thrown from the signing callback. The framework delivers the first response
  written.
\<close>

datatype effect = Send response | Signed string | Thrown

definition invalid_credential :: response where
  "invalid_credential = Response 400 (Errors [''Invalid credential''])"

definition sign_and_reply :: "ext \<Rightarrow> user \<Rightarrow> effect list" where
  "sign_and_reply x u =
     (case jwt_sign x (user_id u) 36000 of
        None \<Rightarrow> [Thrown]
      | Some t \<Rightarrow> [Signed t, Send (Response 200 (Token t))])"

definition login_errors :: "ext \<Rightarrow> string \<Rightarrow> string option \<Rightarrow> string list" where
  "login_errors x email password =
     (if isEmail x email then [] else [''Please enter a valid email'']) @
     (if password = None then [''You must enter a password''] else [])"

definition login :: "ext \<Rightarrow> db \<Rightarrow> string \<Rightarrow> string option \<Rightarrow> effect list \<times> db" where
  "login x d email password =
     (case password of
        None \<Rightarrow> ([Send (Response 400 (Errors (login_errors x email password)))], d)
      | Some pw \<Rightarrow>
          if login_errors x email password \<noteq> []
          then ([Send (Response 400 (Errors (login_errors x email password)))], d)
          else (case User_findOne d email of
                  (Inl e, d1) \<Rightarrow> ([Send (Response 500 (Text ''Server error''))], d1)
                | (Inr None, d1) \<Rightarrow> ([Send invalid_credential], d1)
                | (Inr (Some u), d1) \<Rightarrow>
                    ((if bcrypt_compare x pw (user_password u) then []
                      else [Send invalid_credential]) @ sign_and_reply x u, d1)))"

definition tokens :: "effect list \<Rightarrow> string list" where
  "tokens tr = concat (map (\<lambda>e. case e of Signed t \<Rightarrow> [t] | _ \<Rightarrow> []) tr)"

definition delivered :: "effect list \<Rightarrow> response option" where
  "delivered tr =
     (case concat (map (\<lambda>e. case e of Send r \<Rightarrow> [r] | _ \<Rightarrow> []) tr) of
        [] \<Rightarrow> None | r # rs \<Rightarrow> Some r)"

section \<open>Sequences of like and unlike requests\<close>

datatype request = Like string oid | Unlike string oid

fun step :: "ext \<Rightarrow> db \<Rightarrow> request \<Rightarrow> db" where
  "step x d (Like pid uid) = snd (like x d pid uid)"
| "step x d (Unlike pid uid) = snd (unlike x d pid uid)"

definition run :: "ext \<Rightarrow> db \<Rightarrow> request list \<Rightarrow> db" where
  "run x d rs = foldl (step x) d rs"

text \<open>No stored post has two likes of one user.\<close>

definition likes_unique :: "db \<Rightarrow> bool" where
  "likes_unique d = (\<forall>pid p. posts d pid = Some p \<longrightarrow> distinct (map like_user (likes p)))"

section \<open>An example store\<close>

text \<open>
  Two users and one post of the first, with three comments: one of the second user
  and, after it, two of the post's author. The second user has liked the post.
\<close>

definition ex_ext :: ext where
  "ex_ext = \<lparr>isObjectId = (\<lambda>s. length s = 24 \<and> list_all (\<lambda>c. c \<in> set ''0123456789abcdef'') s),
             isEmail = (\<lambda>s. CHR ''@'' \<in> set s),
             bcrypt_compare = (\<lambda>pw h. h = ''hash:'' @ pw),
             jwt_sign = (\<lambda>u n. Some (''jwt:'' @ u))\<rparr>"

definition ex_u1 :: user where
  "ex_u1 = \<lparr>user_id = ''5f00000000000000000000a1'', user_name = ''Ann'',
            user_email = ''u1@x.com'', user_avatar = ''ann.png'',
            user_password = ''hash:secret1''\<rparr>"

definition ex_u2 :: user where
  "ex_u2 = \<lparr>user_id = ''5f00000000000000000000a2'', user_name = ''Bob'',
            user_email = ''u2@x.com'', user_avatar = ''bob.png'',
            user_password = ''hash:secret2''\<rparr>"

definition ex_c1 :: comment where
  "ex_c1 = \<lparr>cmt_id = ''5f00000000000000000000c1'', cmt_user = ''5f00000000000000000000a2'',
            cmt_text = ''hi'', cmt_name = ''Bob'', cmt_avatar = ''bob.png''\<rparr>"

definition ex_c2 :: comment where
  "ex_c2 = \<lparr>cmt_id = ''5f00000000000000000000c2'', cmt_user = ''5f00000000000000000000a1'',
            cmt_text = ''thanks'', cmt_name = ''Ann'', cmt_avatar = ''ann.png''\<rparr>"

definition ex_c3 :: comment where
  "ex_c3 = \<lparr>cmt_id = ''5f00000000000000000000c3'', cmt_user = ''5f00000000000000000000a1'',
            cmt_text = ''first'', cmt_name = ''Ann'', cmt_avatar = ''ann.png''\<rparr>"

definition ex_post :: post where
  "ex_post = \<lparr>post_user = ''5f00000000000000000000a1'', post_text = ''hello'',
              post_name = ''Ann'', post_avatar = ''ann.png'',
              likes = [\<lparr>like_user = ''5f00000000000000000000a2''\<rparr>],
              comments = [ex_c1, ex_c2, ex_c3]\<rparr>"

definition ex_db :: db where
  "ex_db = \<lparr>users = [ex_u1, ex_u2],
            posts = [''5f00000000000000000000b1'' \<mapsto> ex_post],
            faults = []\<rparr>"

section \<open>Facts about the store calls\<close>

lemma tick_keeps: "tick d = (f, d1) \<Longrightarrow> posts d1 = posts d \<and> users d1 = users d"
  by (auto simp: tick_def split: list.splits)

lemma tick_store_ok: "store_ok (Suc n) d \<Longrightarrow> tick d = (f, d1) \<Longrightarrow> \<not> f \<and> store_ok n d1"
  by (auto simp: tick_def store_ok_def split: list.splits)

lemma Post_findById_ok:
  assumes "isObjectId x pid" and "store_ok (Suc n) d"
  shows "\<exists>d1. Post_findById x d pid = (Inr (posts d pid), d1) \<and> posts d1 = posts d \<and>
              users d1 = users d \<and> store_ok n d1"
proof (cases "tick d")
  case (Pair f d1)
  with assms(2) have "\<not> f" "store_ok n d1" "posts d1 = posts d" "users d1 = users d"
    using tick_store_ok tick_keeps by blast+
  with Pair assms(1) show ?thesis by (simp add: Post_findById_def)
qed

lemma Post_findById_bad: "\<not> isObjectId x pid \<Longrightarrow> Post_findById x d pid = (Inl CastError, d)"
  by (simp add: Post_findById_def)

lemma Post_findById_keeps:
  "Post_findById x d pid = (r, d1) \<Longrightarrow> posts d1 = posts d \<and> users d1 = users d"
  by (cases "tick d") (auto simp: Post_findById_def split: bool.splits if_splits dest: tick_keeps)

lemma Post_findById_Inr:
  "Post_findById x d pid = (Inr po, d1) \<Longrightarrow> po = posts d pid \<and> isObjectId x pid"
  by (cases "tick d") (auto simp: Post_findById_def split: bool.splits if_splits dest: tick_keeps)

lemma Post_save_ok:
  assumes "store_ok (Suc n) d"
  shows "\<exists>d1. Post_save d pid p = (Inr (), d1) \<and> posts d1 = (posts d)(pid \<mapsto> p) \<and>
              users d1 = users d \<and> store_ok n d1"
proof (cases "tick d")
  case (Pair f d1)
  with assms have "\<not> f" "store_ok n d1" "posts d1 = posts d" "users d1 = users d"
    using tick_store_ok tick_keeps by blast+
  with Pair show ?thesis by (simp add: Post_save_def store_ok_def)
qed

lemma Post_save_posts:
  "Post_save d pid p = (r, d1) \<Longrightarrow>
   posts d1 = (case r of Inl e \<Rightarrow> posts d | Inr u \<Rightarrow> (posts d)(pid \<mapsto> p))"
  by (cases "tick d") (auto simp: Post_save_def split: bool.splits dest: tick_keeps)

lemma Post_remove_ok:
  assumes "store_ok (Suc n) d"
  shows "\<exists>d1. Post_remove d pid = (Inr (), d1) \<and> posts d1 = (posts d)(pid := None) \<and>
              users d1 = users d \<and> store_ok n d1"
proof (cases "tick d")
  case (Pair f d1)
  with assms have "\<not> f" "store_ok n d1" "posts d1 = posts d" "users d1 = users d"
    using tick_store_ok tick_keeps by blast+
  with Pair show ?thesis by (simp add: Post_remove_def store_ok_def)
qed

lemma User_findById_keeps:
  "User_findById d uid = (r, d1) \<Longrightarrow> posts d1 = posts d \<and> users d1 = users d"
  by (cases "tick d") (auto simp: User_findById_def split: bool.splits dest: tick_keeps)

lemmas ex_defs = ex_ext_def ex_db_def ex_post_def ex_u1_def ex_u2_def ex_c1_def ex_c2_def ex_c3_def

section \<open>Login\<close>

text \<open>
  C1. A login whose identifier resolves to a stored identity and whose secret does
  not match must answer \<open>InvalidCredential\<close> and issue no token. The handler writes
  the 400 response and, having no \<^verbatim>\<open>return\<close> there, goes on to sign a token and
  to write it: at the stored user \<open>u1@x.com\<close> with the secret \<open>wrong\<close> the client is
  answered \<open>Invalid credential\<close>, and a token for that user is signed all the same.
\<close>

theorem login_mismatch_issues_token:
  "bcrypt_compare ex_ext ''wrong'' (user_password ex_u1) = False \<and>
   delivered (fst (login ex_ext ex_db ''u1@x.com'' (Some ''wrong''))) = Some invalid_credential \<and>
   tokens (fst (login ex_ext ex_db ''u1@x.com'' (Some ''wrong''))) = [''jwt:5f00000000000000000000a1'']"
  by (simp add: login_def login_errors_def ex_defs User_findOne_def tick_def sign_and_reply_def
        delivered_def tokens_def)

section \<open>Posts that are not stored\<close>

text \<open>
  C3. A like of a post id that identifies no stored post should fail with
  \<open>NotFound\<close> (404). The handler reads \<^verbatim>\<open>post.likes\<close> of the \<^verbatim>\<open>null\<close> the
  lookup returned, and the \<^verbatim>\<open>catch\<close> block answers 500: at a well-formed id that
  is not stored, the answer is \<open>Server error!\<close>.
\<close>

theorem like_absent_post_server_error:
  "isObjectId ex_ext ''5f00000000000000000000b9'' \<and>
   posts ex_db ''5f00000000000000000000b9'' = None \<and>
   like ex_ext ex_db ''5f00000000000000000000b9'' ''5f00000000000000000000a1''
     = (Response 500 (Text ''Server error!''), ex_db)"
  by (simp add: like_def like_try_def Post_findById_def tick_def ex_defs server_error_def)

text \<open>
  C10. A comment with a non-empty text on a post id that identifies no stored post
  is answered 500 (\<open>StoreUnavailable\<close>), never 404, and the stored posts are what
  they were. This holds whatever the store's failures and whether or not the
  commenting user is stored (and for a malformed id as well).
\<close>

theorem addComment_absent_post:
  assumes "body_text \<noteq> []" and "posts d pid = None"
  shows "fst (addComment x d pid uid body_text cid) = Response 500 (Text ''Server Error!'') \<and>
         posts (snd (addComment x d pid uid body_text cid)) = posts d"
proof (cases "User_findById d uid")
  case U: (Pair ru d1)
  then have k1: "posts d1 = posts d" using User_findById_keeps by blast
  show ?thesis
  proof (cases "Post_findById x d1 pid")
    case P: (Pair rp d2)
    then have k2: "posts d2 = posts d1" using Post_findById_keeps by blast
    have "po = None" if "rp = Inr po" for po
    proof -
      from P that have "Post_findById x d1 pid = (Inr po, d2)" by simp
      from Post_findById_Inr [OF this] k1 assms(2) show ?thesis by simp
    qed
    with assms(1) U P k1 k2 show ?thesis
      by (auto simp: addComment_def addComment_try_def Server_Error_def Let_def
               split: sum.splits option.splits)
  qed
qed

theorem addComment_absent_post_witness:
  "''nice'' \<noteq> [] \<and> posts ex_db ''5f00000000000000000000b9'' = None \<and>
   isObjectId ex_ext ''5f00000000000000000000b9'' \<and>
   fst (addComment ex_ext ex_db ''5f00000000000000000000b9'' ''5f00000000000000000000a2''
          ''nice'' ''5f00000000000000000000c4'') = Response 500 (Text ''Server Error!'') \<and>
   posts (snd (addComment ex_ext ex_db ''5f00000000000000000000b9''
          ''5f00000000000000000000a2'' ''nice'' ''5f00000000000000000000c4'')) = posts ex_db"
proof -
  have h1: "''nice'' \<noteq> []" by simp
  have h2: "posts ex_db ''5f00000000000000000000b9'' = None" by (simp add: ex_db_def)
  have h3: "isObjectId ex_ext ''5f00000000000000000000b9''" by (simp add: ex_ext_def)
  show ?thesis
    using h1 h2 h3
      addComment_absent_post [OF h1 h2, where x = ex_ext
        and uid = "''5f00000000000000000000a2''" and cid = "''5f00000000000000000000c4''"]
    by simp
qed

section \<open>Likes\<close>

lemma filter_pos_iff: "(0 < length (filter (\<lambda>l. f l = y) xs)) = (y \<in> set (map f xs))"
  by (induction xs) auto

lemma splice1_0: "splice1 0 (a # xs) = xs" by (simp add: splice1_def)

text \<open>
  C5. When the post is loaded and already holds a like of the identity, a further
  like by that identity is answered 400 \<open>You already liked post\<close>
  (\<open>DuplicateAction\<close>) and nothing is saved: the stored posts, and so the like
  sequence and its length, are what they were.
\<close>

theorem like_duplicate:
  assumes "isObjectId x pid" and "store_ok 1 d" and "posts d pid = Some p"
    and "uid \<in> set (map like_user (likes p))"
  shows "fst (like x d pid uid) = Response 400 (Msg ''You already liked post'') \<and>
         posts (snd (like x d pid uid)) = posts d"
proof -
  from assms(1,2) obtain d1 where
    "Post_findById x d pid = (Inr (posts d pid), d1)" "posts d1 = posts d"
    using Post_findById_ok [of x pid 0 d] by auto
  with assms(3,4) show ?thesis
    by (simp add: like_def like_try_def filter_pos_iff del: length_greater_0_conv)
qed

theorem like_duplicate_witness:
  "isObjectId ex_ext ''5f00000000000000000000b1'' \<and> store_ok 1 ex_db \<and>
   posts ex_db ''5f00000000000000000000b1'' = Some ex_post \<and>
   ''5f00000000000000000000a2'' \<in> set (map like_user (likes ex_post)) \<and>
   fst (like ex_ext ex_db ''5f00000000000000000000b1'' ''5f00000000000000000000a2'')
     = Response 400 (Msg ''You already liked post'') \<and>
   posts (snd (like ex_ext ex_db ''5f00000000000000000000b1'' ''5f00000000000000000000a2''))
     = posts ex_db"
proof -
  have h1: "isObjectId ex_ext ''5f00000000000000000000b1''" by (simp add: ex_ext_def)
  have h2: "store_ok 1 ex_db" by (simp add: store_ok_def ex_db_def)
  have h3: "posts ex_db ''5f00000000000000000000b1'' = Some ex_post" by (simp add: ex_db_def)
  have h4: "''5f00000000000000000000a2'' \<in> set (map like_user (likes ex_post))"
    by (simp add: ex_post_def)
  show ?thesis using h1 h2 h3 h4 like_duplicate [OF h1 h2 h3 h4] by simp
qed

text \<open>
  C6. When the identity has no like on the post and the store serves both requests,
  the like is answered with the like sequence grown at its head, the unlike that
  follows is answered with the sequence as it was before the like, and the stored
  posts are again exactly what they were.
\<close>

theorem like_then_unlike:
  assumes "isObjectId x pid" and "store_ok 4 d" and "posts d pid = Some p"
    and "uid \<notin> set (map like_user (likes p))"
  shows "fst (like x d pid uid) = Response 200 (LikesArr (\<lparr>like_user = uid\<rparr> # likes p)) \<and>
         fst (unlike x (snd (like x d pid uid)) pid uid) = Response 200 (LikesArr (likes p)) \<and>
         posts (snd (unlike x (snd (like x d pid uid)) pid uid)) = posts d"
proof -
  let ?p1 = "p\<lparr>likes := \<lparr>like_user = uid\<rparr> # likes p\<rparr>"
  have s4: "store_ok (Suc 3) d" using assms(2) by (simp add: eval_nat_numeral)
  from assms(1) s4 obtain d1 where
    f1: "Post_findById x d pid = (Inr (posts d pid), d1)" "posts d1 = posts d" "store_ok 3 d1"
    using Post_findById_ok by blast
  have "store_ok (Suc 2) d1" using f1(3) by (simp add: eval_nat_numeral)
  then obtain d2 where
    s1: "Post_save d1 pid ?p1 = (Inr (), d2)" "posts d2 = (posts d1)(pid \<mapsto> ?p1)" "store_ok 2 d2"
    using Post_save_ok by blast
  have L: "like x d pid uid = (Response 200 (LikesArr (\<lparr>like_user = uid\<rparr> # likes p)), d2)"
    using f1 s1 assms(3,4)
    by (simp add: like_def like_try_def filter_pos_iff del: length_greater_0_conv)
  have "store_ok (Suc 1) d2" using s1(3) by (simp add: eval_nat_numeral)
  with assms(1) obtain d3 where
    f2: "Post_findById x d2 pid = (Inr (posts d2 pid), d3)" "posts d3 = posts d2" "store_ok 1 d3"
    using Post_findById_ok by blast
  have "store_ok (Suc 0) d3" using f2(3) by simp
  then obtain d4 where
    s2: "Post_save d3 pid p = (Inr (), d4)" "posts d4 = (posts d3)(pid \<mapsto> p)"
    using Post_save_ok by blast
  have restored: "?p1\<lparr>likes := splice1 (indexOf (map like_user (likes ?p1)) uid) (likes ?p1)\<rparr> = p"
    by (simp add: splice1_0)
  have U: "unlike x d2 pid uid = (Response 200 (LikesArr (likes p)), d4)"
    using f2 s1(2) s2 restored
    by (simp add: unlike_def unlike_try_def Let_def splice1_0)
  have "posts d4 = posts d"
    using s2(2) f2(2) s1(2) f1(2) assms(3) by (simp add: map_upd_triv)
  with L U show ?thesis by simp
qed

theorem like_then_unlike_witness:
  "isObjectId ex_ext ''5f00000000000000000000b1'' \<and> store_ok 4 ex_db \<and>
   posts ex_db ''5f00000000000000000000b1'' = Some ex_post \<and>
   ''5f00000000000000000000a1'' \<notin> set (map like_user (likes ex_post)) \<and>
   fst (like ex_ext ex_db ''5f00000000000000000000b1'' ''5f00000000000000000000a1'')
     = Response 200 (LikesArr [\<lparr>like_user = ''5f00000000000000000000a1''\<rparr>,
                               \<lparr>like_user = ''5f00000000000000000000a2''\<rparr>]) \<and>
   fst (unlike ex_ext
          (snd (like ex_ext ex_db ''5f00000000000000000000b1'' ''5f00000000000000000000a1''))
          ''5f00000000000000000000b1'' ''5f00000000000000000000a1'')
     = Response 200 (LikesArr [\<lparr>like_user = ''5f00000000000000000000a2''\<rparr>]) \<and>
   posts (snd (unlike ex_ext
          (snd (like ex_ext ex_db ''5f00000000000000000000b1'' ''5f00000000000000000000a1''))
          ''5f00000000000000000000b1'' ''5f00000000000000000000a1''))
     = posts ex_db"
proof -
  have h1: "isObjectId ex_ext ''5f00000000000000000000b1''" by (simp add: ex_ext_def)
  have h2: "store_ok 4 ex_db" by (simp add: store_ok_def ex_db_def)
  have h3: "posts ex_db ''5f00000000000000000000b1'' = Some ex_post" by (simp add: ex_db_def)
  have h4: "''5f00000000000000000000a1'' \<notin> set (map like_user (likes ex_post))"
    by (simp add: ex_post_def)
  have h5: "likes ex_post = [\<lparr>like_user = ''5f00000000000000000000a2''\<rparr>]"
    by (simp add: ex_post_def)
  show ?thesis using h1 h2 h3 h4 like_then_unlike [OF h1 h2 h3 h4] by (simp add: h5)
qed

lemma splice1_take_drop: "\<exists>k. splice1 i xs = take k xs @ drop (Suc k) xs"
  by (auto simp: splice1_def Let_def)

lemma distinct_drop_one: "distinct ys \<Longrightarrow> distinct (take k ys @ drop (Suc k) ys)"
  by (simp add: set_take_disj_set_drop_if_distinct)

lemma splice1_distinct:
  assumes "distinct (map f xs)" shows "distinct (map f (splice1 i xs))"
proof -
  obtain k where "splice1 i xs = take k xs @ drop (Suc k) xs"
    using splice1_take_drop by blast
  then have "map f (splice1 i xs) = take k (map f xs) @ drop (Suc k) (map f xs)"
    by (simp add: take_map drop_map)
  with assms show ?thesis by (simp only: distinct_drop_one)
qed

lemma like_posts:
  "posts (snd (like x d pid uid)) = posts d \<or>
   (\<exists>p. posts d pid = Some p \<and> uid \<notin> set (map like_user (likes p)) \<and>
        posts (snd (like x d pid uid)) = (posts d)(pid \<mapsto> p\<lparr>likes := \<lparr>like_user = uid\<rparr> # likes p\<rparr>))"
proof (cases "Post_findById x d pid")
  case F: (Pair r d1)
  then have k: "posts d1 = posts d" using Post_findById_keeps by blast
  show ?thesis
  proof (cases r)
    case (Inl e)
    with F k show ?thesis by (simp add: like_def like_try_def)
  next
    case (Inr po)
    with F have po: "po = posts d pid" using Post_findById_Inr by blast
    show ?thesis
    proof (cases po)
      case None
      with F Inr k show ?thesis by (simp add: like_def like_try_def)
    next
      case (Some p)
      show ?thesis
      proof (cases "uid \<in> set (map like_user (likes p))")
        case True
        with F Inr Some k show ?thesis
          by (simp add: like_def like_try_def filter_pos_iff del: length_greater_0_conv)
      next
        case False
        obtain r2 d2 where S: "Post_save d1 pid (p\<lparr>likes := \<lparr>like_user = uid\<rparr> # likes p\<rparr>) = (r2, d2)"
          by (cases "Post_save d1 pid (p\<lparr>likes := \<lparr>like_user = uid\<rparr> # likes p\<rparr>)") 
        from Post_save_posts [OF S] k have
          "posts d2 = (case r2 of Inl e \<Rightarrow> posts d | Inr u \<Rightarrow> (posts d)(pid \<mapsto> p\<lparr>likes := \<lparr>like_user = uid\<rparr> # likes p\<rparr>))"
          by (cases r2) simp_all
        with F Inr Some False S po show ?thesis
          by (cases r2) (simp_all add: like_def like_try_def filter_pos_iff del: length_greater_0_conv)
      qed
    qed
  qed
qed

lemma unlike_posts:
  "posts (snd (unlike x d pid uid)) = posts d \<or>
   (\<exists>p i. posts d pid = Some p \<and>
        posts (snd (unlike x d pid uid)) = (posts d)(pid \<mapsto> p\<lparr>likes := splice1 i (likes p)\<rparr>))"
proof (cases "Post_findById x d pid")
  case F: (Pair r d1)
  then have k: "posts d1 = posts d" using Post_findById_keeps by blast
  show ?thesis
  proof (cases r)
    case (Inl e)
    with F k show ?thesis by (simp add: unlike_def unlike_try_def)
  next
    case (Inr po)
    with F have po: "po = posts d pid" using Post_findById_Inr by blast
    show ?thesis
    proof (cases po)
      case None
      with F Inr k show ?thesis by (simp add: unlike_def unlike_try_def)
    next
      case (Some p)
      let ?p' = "p\<lparr>likes := splice1 (indexOf (map like_user (likes p)) uid) (likes p)\<rparr>"
      obtain r2 d2 where S: "Post_save d1 pid ?p' = (r2, d2)"
        by (cases "Post_save d1 pid ?p'")
      from Post_save_posts [OF S] k have
        "posts d2 = (case r2 of Inl e \<Rightarrow> posts d | Inr u \<Rightarrow> (posts d)(pid \<mapsto> ?p'))"
        by (cases r2) simp_all
      with F Inr Some S po k show ?thesis
        by (cases r2) (auto simp add: unlike_def unlike_try_def Let_def)
    qed
  qed
qed

lemma step_likes_unique: "likes_unique d \<Longrightarrow> likes_unique (step x d r)"
proof (cases r)
  case (Like pid uid)
  assume "likes_unique d"
  with like_posts [of x d pid uid] Like show ?thesis
    by (auto simp: likes_unique_def split: if_splits)
next
  case (Unlike pid uid)
  assume "likes_unique d"
  with unlike_posts [of x d pid uid] Unlike show ?thesis
    by (auto simp: likes_unique_def splice1_distinct split: if_splits)
qed

text \<open>
  C8. Whatever sequence of like and unlike requests is served (on any post ids, by any
  identities, with any failures of the store), if no stored post had two likes of
  one user before, none has afterwards.
\<close>

theorem likes_unique_preserved: "likes_unique d \<Longrightarrow> likes_unique (run x d rs)"
  unfolding run_def by (induction rs arbitrary: d) (simp_all add: step_likes_unique)

theorem likes_unique_preserved_witness:
  "likes_unique ex_db \<and>
   likes_unique (run ex_ext ex_db
     [Like ''5f00000000000000000000b1'' ''5f00000000000000000000a1'',
      Like ''5f00000000000000000000b1'' ''5f00000000000000000000a1'',
      Unlike ''5f00000000000000000000b1'' ''5f00000000000000000000a2'',
      Like ''5f00000000000000000000b9'' ''5f00000000000000000000a2''])"
proof -
  have h: "likes_unique ex_db"
    by (simp add: likes_unique_def ex_db_def ex_post_def)
  show ?thesis using h likes_unique_preserved [OF h] by simp
qed

section \<open>Deleting a post\<close>

text \<open>
  C7. For a stored post and an available store: a caller who is not the post's
  author is answered 401 \<open>You are note authorized!\<close> (\<open>Forbidden\<close>), the stored
  posts are unchanged and a following get of that id returns the post; the author
  is answered \<open>Post removed.\<close> and the post is no longer stored.
\<close>

theorem deleteById_ownership:
  assumes "isObjectId x pid" and "store_ok 2 d" and "posts d pid = Some p"
  shows "(uid \<noteq> post_user p \<longrightarrow>
            fst (deleteById x d pid uid) = Response 401 (Msg ''You are note authorized!'') \<and>
            posts (snd (deleteById x d pid uid)) = posts d \<and>
            fst (getById x (snd (deleteById x d pid uid)) pid) = Response 200 (PostDoc p)) \<and>
         (uid = post_user p \<longrightarrow>
            fst (deleteById x d pid uid) = Response 200 (Msg ''Post removed.'') \<and>
            posts (snd (deleteById x d pid uid)) = (posts d)(pid := None))"
proof -
  have "store_ok (Suc 1) d" using assms(2) by (simp add: eval_nat_numeral)
  with assms(1) obtain d1 where
    f1: "Post_findById x d pid = (Inr (posts d pid), d1)" "posts d1 = posts d" "store_ok 1 d1"
    using Post_findById_ok by blast
  have ok1: "store_ok (Suc 0) d1" using f1(3) by simp
  show ?thesis
  proof (cases "uid = post_user p")
    case True
    from ok1 obtain d2 where
      "Post_remove d1 pid = (Inr (), d2)" "posts d2 = (posts d1)(pid := None)"
      using Post_remove_ok by blast
    with True f1 assms(3) show ?thesis
      by (simp add: deleteById_def deleteById_try_def)
  next
    case False
    with f1 assms(3) have D: "deleteById x d pid uid = (Response 401 (Msg ''You are note authorized!''), d1)"
      by (simp add: deleteById_def deleteById_try_def)
    from assms(1) ok1 obtain d2 where
      "Post_findById x d1 pid = (Inr (posts d1 pid), d2)"
      using Post_findById_ok by blast
    with f1(2) assms(3) have "fst (getById x d1 pid) = Response 200 (PostDoc p)"
      by (simp add: getById_def getById_try_def)
    with D False f1(2) show ?thesis by simp
  qed
qed

theorem deleteById_ownership_witness:
  "isObjectId ex_ext ''5f00000000000000000000b1'' \<and> store_ok 2 ex_db \<and>
   posts ex_db ''5f00000000000000000000b1'' = Some ex_post \<and>
   ''5f00000000000000000000a2'' \<noteq> post_user ex_post \<and>
   fst (deleteById ex_ext ex_db ''5f00000000000000000000b1'' ''5f00000000000000000000a2'')
     = Response 401 (Msg ''You are note authorized!'') \<and>
   fst (getById ex_ext
         (snd (deleteById ex_ext ex_db ''5f00000000000000000000b1'' ''5f00000000000000000000a2''))
         ''5f00000000000000000000b1'') = Response 200 (PostDoc ex_post) \<and>
   ''5f00000000000000000000a1'' = post_user ex_post \<and>
   fst (deleteById ex_ext ex_db ''5f00000000000000000000b1'' ''5f00000000000000000000a1'')
     = Response 200 (Msg ''Post removed.'') \<and>
   posts (snd (deleteById ex_ext ex_db ''5f00000000000000000000b1''
                 ''5f00000000000000000000a1'')) ''5f00000000000000000000b1'' = None"
proof -
  have h1: "isObjectId ex_ext ''5f00000000000000000000b1''" by (simp add: ex_ext_def)
  have h2: "store_ok 2 ex_db" by (simp add: store_ok_def ex_db_def)
  have h3: "posts ex_db ''5f00000000000000000000b1'' = Some ex_post" by (simp add: ex_db_def)
  have h4: "''5f00000000000000000000a2'' \<noteq> post_user ex_post" by (simp add: ex_post_def)
  have h5: "''5f00000000000000000000a1'' = post_user ex_post" by (simp add: ex_post_def)
  show ?thesis
    using h1 h2 h3 h4 h5
      deleteById_ownership [OF h1 h2 h3, of "''5f00000000000000000000a2''"]
      deleteById_ownership [OF h1 h2 h3, of "''5f00000000000000000000a1''"]
    by simp
qed

section \<open>Malformed post ids\<close>

lemma cast_error_like: "\<not> isObjectId x pid \<Longrightarrow> fst (like x d pid uid) = server_error"
  by (simp add: like_def like_try_def Post_findById_bad)

lemma cast_error_unlike: "\<not> isObjectId x pid \<Longrightarrow> fst (unlike x d pid uid) = server_error"
  by (simp add: unlike_def unlike_try_def Post_findById_bad)

lemma cast_error_removeComment:
  "\<not> isObjectId x pid \<Longrightarrow> fst (removeComment x d pid cid uid) = Server_Error"
  by (simp add: removeComment_def removeComment_try_def Post_findById_bad)

lemma cast_error_addComment:
  "\<not> isObjectId x pid \<Longrightarrow> body_text \<noteq> [] \<Longrightarrow>
   fst (addComment x d pid uid body_text cid) = Server_Error"
  by (cases "User_findById d uid")
     (auto simp: addComment_def addComment_try_def Post_findById_bad split: sum.splits)

lemma cast_error_getById: "\<not> isObjectId x pid \<Longrightarrow> fst (getById x d pid) = no_post"
  by (simp add: getById_def getById_try_def Post_findById_bad)

lemma cast_error_deleteById:
  "\<not> isObjectId x pid \<Longrightarrow>
   fst (deleteById x d pid uid) = Response 404 (MsgNested ''No post found!'')"
  by (simp add: deleteById_def deleteById_try_def Post_findById_bad)

lemma absent_getById:
  assumes "isObjectId x pid" and "store_ok 1 d" and "posts d pid = None"
  shows "fst (getById x d pid) = no_post"
proof -
  from assms(1,2) obtain d1 where "Post_findById x d pid = (Inr (posts d pid), d1)"
    using Post_findById_ok [of x pid 0 d] by auto
  with assms(3) show ?thesis by (simp add: getById_def getById_try_def)
qed

lemma absent_deleteById:
  assumes "isObjectId x pid" and "store_ok 1 d" and "posts d pid = None"
  shows "fst (deleteById x d pid uid) = no_post"
proof -
  from assms(1,2) obtain d1 where "Post_findById x d pid = (Inr (posts d pid), d1)"
    using Post_findById_ok [of x pid 0 d] by auto
  with assms(3) show ?thesis by (simp add: deleteById_def deleteById_try_def)
qed

text \<open>
  C9. A post id that the driver cannot cast is answered 404 by the get and delete
  handlers, as a well-formed id of no stored post is; the like, unlike, comment
  (with a text that passes validation) and comment-removal handlers answer 500 for
  the malformed id.
\<close>

theorem malformed_id_translation:
  assumes "\<not> isObjectId x bad" and "isObjectId x pid" and "posts d pid = None"
    and "store_ok 1 d" and "body_text \<noteq> []"
  shows "status (fst (getById x d bad)) = 404 \<and> status (fst (getById x d pid)) = 404 \<and>
         status (fst (deleteById x d bad uid)) = 404 \<and>
         status (fst (deleteById x d pid uid)) = 404 \<and>
         status (fst (like x d bad uid)) = 500 \<and>
         status (fst (unlike x d bad uid)) = 500 \<and>
         status (fst (addComment x d bad uid body_text cid)) = 500 \<and>
         status (fst (removeComment x d bad cid' uid)) = 500"
  using assms
  by (simp add: cast_error_getById cast_error_deleteById cast_error_like cast_error_unlike
        cast_error_addComment cast_error_removeComment absent_getById absent_deleteById
        no_post_def server_error_def Server_Error_def)

theorem malformed_id_translation_witness:
  "\<not> isObjectId ex_ext ''not-an-id'' \<and> isObjectId ex_ext ''5f00000000000000000000b9'' \<and>
   posts ex_db ''5f00000000000000000000b9'' = None \<and> store_ok 1 ex_db \<and> ''nice'' \<noteq> [] \<and>
   status (fst (getById ex_ext ex_db ''not-an-id'')) = 404 \<and>
   status (fst (getById ex_ext ex_db ''5f00000000000000000000b9'')) = 404 \<and>
   status (fst (deleteById ex_ext ex_db ''not-an-id'' ''5f00000000000000000000a1'')) = 404 \<and>
   status (fst (deleteById ex_ext ex_db ''5f00000000000000000000b9''
                  ''5f00000000000000000000a1'')) = 404 \<and>
   status (fst (like ex_ext ex_db ''not-an-id'' ''5f00000000000000000000a1'')) = 500 \<and>
   status (fst (unlike ex_ext ex_db ''not-an-id'' ''5f00000000000000000000a1'')) = 500 \<and>
   status (fst (addComment ex_ext ex_db ''not-an-id'' ''5f00000000000000000000a1'' ''nice''
                  ''5f00000000000000000000c4'')) = 500 \<and>
   status (fst (removeComment ex_ext ex_db ''not-an-id'' ''5f00000000000000000000c1''
                  ''5f00000000000000000000a1'')) = 500"
proof -
  have h1: "\<not> isObjectId ex_ext ''not-an-id''" by (simp add: ex_ext_def)
  have h2: "isObjectId ex_ext ''5f00000000000000000000b9''" by (simp add: ex_ext_def)
  have h3: "posts ex_db ''5f00000000000000000000b9'' = None" by (simp add: ex_db_def)
  have h4: "store_ok 1 ex_db" by (simp add: store_ok_def ex_db_def)
  have h5: "''nice'' \<noteq> []" by simp
  show ?thesis
    using h1 h2 h3 h4 h5
      malformed_id_translation [OF h1 h2 h3 h4 h5, where uid = "''5f00000000000000000000a1''"
        and cid = "''5f00000000000000000000c4''" and cid' = "''5f00000000000000000000c1''"]
    by simp
qed

section \<open>Removing a comment\<close>

lemma indexOf_ge: "- 1 \<le> indexOf xs y"
  by (induction xs) (auto simp: Let_def)

lemma indexOf_map_split:
  "y \<in> set (map f xs) \<Longrightarrow>
   \<exists>pre c suf. xs = pre @ c # suf \<and> f c = y \<and> y \<notin> set (map f pre) \<and>
               indexOf (map f xs) y = int (length pre)"
proof (induction xs)
  case Nil
  then show ?case by simp
next
  case (Cons a xs)
  show ?case
  proof (cases "f a = y")
    case True
    then have "a # xs = [] @ a # xs \<and> f a = y \<and> y \<notin> set (map f []) \<and>
               indexOf (map f (a # xs)) y = int (length ([] :: 'b list))"
      by simp
    then show ?thesis by blast
  next
    case False
    with Cons.prems have "y \<in> set (map f xs)" by auto
    with Cons.IH obtain pre c suf where
      IH: "xs = pre @ c # suf" "f c = y" "y \<notin> set (map f pre)"
          "indexOf (map f xs) y = int (length pre)"
      by blast
    with False have "a # xs = (a # pre) @ c # suf \<and> f c = y \<and> y \<notin> set (map f (a # pre)) \<and>
               indexOf (map f (a # xs)) y = int (length (a # pre))"
      by (auto simp: Let_def)
    then show ?thesis by blast
  qed
qed

lemma splice1_at: "splice1 (int (length pre)) (pre @ c # suf) = pre @ suf"
  by (simp add: splice1_def Let_def)

lemma find_Some_user: "find P xs = Some c \<Longrightarrow> c \<in> set xs"
  by (auto simp: find_Some_iff)

lemma removeComment_success_shape:
  assumes "removeComment x d pid cid uid = (Response 200 b, d')" and "posts d pid = Some p"
  shows "\<exists>pre c suf. comments p = pre @ c # suf \<and> cmt_user c = uid \<and>
           uid \<notin> set (map cmt_user pre) \<and>
           b = CommentsArr (pre @ suf) \<and>
           posts d' = (posts d)(pid \<mapsto> p\<lparr>comments := pre @ suf\<rparr>)"
proof (cases "Post_findById x d pid")
  case F: (Pair r d1)
  then have k: "posts d1 = posts d" using Post_findById_keeps by blast
  show ?thesis
  proof (cases r)
    case (Inl e)
    with F assms(1) show ?thesis
      by (simp add: removeComment_def removeComment_try_def Server_Error_def)
  next
    case (Inr po)
    with F have "Post_findById x d pid = (Inr po, d1)" by simp
    from Post_findById_Inr [OF this] assms(2) have po: "po = Some p" by simp
    show ?thesis
    proof (cases "find (\<lambda>c. cmt_id c = cid) (comments p)")
      case None
      with F Inr po assms(1) show ?thesis
        by (simp add: removeComment_def removeComment_try_def)
    next
      case (Some c0)
      show ?thesis
      proof (cases "cmt_user c0 = uid")
        case False
        with F Inr po Some assms(1) show ?thesis
          by (simp add: removeComment_def removeComment_try_def)
      next
        case True
        from Some have "c0 \<in> set (comments p)" by (rule find_Some_user)
        with True have mem: "uid \<in> set (map cmt_user (comments p))" by auto
        from indexOf_map_split [OF mem] obtain pre c suf where
          sp: "comments p = pre @ c # suf" "cmt_user c = uid" "uid \<notin> set (map cmt_user pre)"
              "indexOf (map cmt_user (comments p)) uid = int (length pre)"
          by (elim exE conjE)
        let ?p' = "p\<lparr>comments := pre @ suf\<rparr>"
        have p': "p\<lparr>comments := splice1 (indexOf (map cmt_user (comments p)) uid) (comments p)\<rparr> = ?p'"
          using sp(1,4) splice1_at [of pre c suf] by simp
        obtain r2 d2 where S: "Post_save d1 pid ?p' = (r2, d2)"
          by (cases "Post_save d1 pid ?p'")
        have R: "removeComment x d pid cid uid =
                 (case r2 of Inl e \<Rightarrow> Server_Error | Inr u \<Rightarrow> Response 200 (CommentsArr (pre @ suf)), d2)"
          using F Inr po Some True S p'
          by (cases r2) (simp_all add: removeComment_def removeComment_try_def Let_def)
        with assms(1) obtain u where r2: "r2 = Inr u" "b = CommentsArr (pre @ suf)" "d' = d2"
          by (cases r2) (auto simp: Server_Error_def)
        from Post_save_posts [OF S] r2(1) k have "posts d2 = (posts d)(pid \<mapsto> ?p')" by simp
        with sp(1-3) r2(2,3) have
          "comments p = pre @ c # suf \<and> cmt_user c = uid \<and> uid \<notin> set (map cmt_user pre) \<and>
           b = CommentsArr (pre @ suf) \<and> posts d' = (posts d)(pid \<mapsto> ?p')"
          by simp
        then show ?thesis by (intro exI)
      qed
    qed
  qed
qed

text \<open>
  C4. On every successful removal of a comment (answer 200), the comment sequence
  of the post splits as \<open>pre @ c # suf\<close> where \<open>c\<close> is written by the acting
  identity and no comment of \<open>pre\<close> is; the answer and the saved post carry
  \<open>pre @ suf\<close>. So exactly one comment goes, the first one of the acting identity,
  whichever comment id the request named.
\<close>

theorem removeComment_removes_first_of_actor:
  assumes "status (fst (removeComment x d pid cid uid)) = 200" and "posts d pid = Some p"
  shows "\<exists>pre c suf. comments p = pre @ c # suf \<and> cmt_user c = uid \<and>
           uid \<notin> set (map cmt_user pre) \<and>
           fst (removeComment x d pid cid uid) = Response 200 (CommentsArr (pre @ suf)) \<and>
           posts (snd (removeComment x d pid cid uid))
             = (posts d)(pid \<mapsto> p\<lparr>comments := pre @ suf\<rparr>)"
proof -
  obtain s b d' where R: "removeComment x d pid cid uid = (Response s b, d')"
    by (cases "removeComment x d pid cid uid") (metis response.exhaust)
  with assms(1) have "removeComment x d pid cid uid = (Response 200 b, d')" by simp
  from removeComment_success_shape [OF this assms(2)] this show ?thesis by simp
qed

theorem removeComment_removes_first_of_actor_witness:
  "status (fst (removeComment ex_ext ex_db ''5f00000000000000000000b1''
                  ''5f00000000000000000000c3'' ''5f00000000000000000000a1'')) = 200 \<and>
   posts ex_db ''5f00000000000000000000b1'' = Some ex_post \<and>
   comments ex_post = [ex_c1, ex_c2, ex_c3] \<and>
   fst (removeComment ex_ext ex_db ''5f00000000000000000000b1''
          ''5f00000000000000000000c3'' ''5f00000000000000000000a1'')
     = Response 200 (CommentsArr [ex_c1, ex_c3]) \<and>
   (\<exists>pre c suf. comments ex_post = pre @ c # suf \<and>
      cmt_user c = ''5f00000000000000000000a1'' \<and>
      ''5f00000000000000000000a1'' \<notin> set (map cmt_user pre) \<and>
      fst (removeComment ex_ext ex_db ''5f00000000000000000000b1''
             ''5f00000000000000000000c3'' ''5f00000000000000000000a1'')
        = Response 200 (CommentsArr (pre @ suf)) \<and>
      posts (snd (removeComment ex_ext ex_db ''5f00000000000000000000b1''
                    ''5f00000000000000000000c3'' ''5f00000000000000000000a1''))
        = (posts ex_db)(''5f00000000000000000000b1'' \<mapsto> ex_post\<lparr>comments := pre @ suf\<rparr>))"
proof -
  have h0: "fst (removeComment ex_ext ex_db ''5f00000000000000000000b1''
                  ''5f00000000000000000000c3'' ''5f00000000000000000000a1'')
            = Response 200 (CommentsArr [ex_c1, ex_c3])"
    by (simp add: removeComment_def removeComment_try_def Post_findById_def Post_save_def
          tick_def splice1_def Let_def ex_defs)
  have h1: "status (fst (removeComment ex_ext ex_db ''5f00000000000000000000b1''
                  ''5f00000000000000000000c3'' ''5f00000000000000000000a1'')) = 200"
    by (simp add: h0)
  have h2: "posts ex_db ''5f00000000000000000000b1'' = Some ex_post" by (simp add: ex_db_def)
  have h3: "comments ex_post = [ex_c1, ex_c2, ex_c3]" by (simp add: ex_post_def)
  from removeComment_removes_first_of_actor [OF h1 h2] h0 h1 h2 h3 show ?thesis
    by (intro conjI)
qed

text \<open>
  C2, as stated, fails: the claim keys the 401 answer on the post's author. The
  post's author, asking to remove the comment another user wrote, is answered 401;
  that comment's own author, who is not the post's author, is answered 200.
\<close>

theorem removeComment_post_author_counterexample:
  "post_user ex_post = ''5f00000000000000000000a1'' \<and>
   fst (removeComment ex_ext ex_db ''5f00000000000000000000b1''
          ''5f00000000000000000000c1'' ''5f00000000000000000000a1'')
     = Response 401 (Msg ''You are not authorized !'') \<and>
   post_user ex_post \<noteq> ''5f00000000000000000000a2'' \<and>
   fst (removeComment ex_ext ex_db ''5f00000000000000000000b1''
          ''5f00000000000000000000c1'' ''5f00000000000000000000a2'')
     = Response 200 (CommentsArr [ex_c2, ex_c3])"
  by (simp add: removeComment_def removeComment_try_def Post_findById_def Post_save_def
        tick_def splice1_def Let_def ex_defs)

text \<open>
  C2, amended. When the post is loaded and holds a comment with the requested id,
  the removal is answered 401 \<open>You are not authorized !\<close> (\<open>Forbidden\<close>) exactly
  when the acting identity differs from the author of that comment (the first with
  that id), whoever wrote the post.
\<close>

theorem removeComment_forbidden_iff:
  assumes "isObjectId x pid" and "store_ok 1 d" and "posts d pid = Some p"
    and "find (\<lambda>c. cmt_id c = cid) (comments p) = Some c"
  shows "(fst (removeComment x d pid cid uid) = Response 401 (Msg ''You are not authorized !''))
         = (cmt_user c \<noteq> uid)"
proof -
  from assms(1,2) obtain d1 where
    F: "Post_findById x d pid = (Inr (posts d pid), d1)"
    using Post_findById_ok [of x pid 0 d] by auto
  show ?thesis
  proof (cases "cmt_user c = uid")
    case False
    with F assms(3,4) show ?thesis
      by (simp add: removeComment_def removeComment_try_def)
  next
    case True
    let ?p' = "p\<lparr>comments := splice1 (indexOf (map cmt_user (comments p)) uid) (comments p)\<rparr>"
    obtain r2 d2 where S: "Post_save d1 pid ?p' = (r2, d2)"
      by (cases "Post_save d1 pid ?p'")
    with True F assms(3,4) show ?thesis
      by (cases r2) (simp_all add: removeComment_def removeComment_try_def Let_def Server_Error_def)
  qed
qed

theorem removeComment_forbidden_iff_witness:
  "isObjectId ex_ext ''5f00000000000000000000b1'' \<and> store_ok 1 ex_db \<and>
   posts ex_db ''5f00000000000000000000b1'' = Some ex_post \<and>
   find (\<lambda>c. cmt_id c = ''5f00000000000000000000c1'') (comments ex_post) = Some ex_c1 \<and>
   cmt_user ex_c1 \<noteq> ''5f00000000000000000000a1'' \<and>
   fst (removeComment ex_ext ex_db ''5f00000000000000000000b1''
          ''5f00000000000000000000c1'' ''5f00000000000000000000a1'')
     = Response 401 (Msg ''You are not authorized !'')"
proof -
  have h1: "isObjectId ex_ext ''5f00000000000000000000b1''" by (simp add: ex_ext_def)
  have h2: "store_ok 1 ex_db" by (simp add: store_ok_def ex_db_def)
  have h3: "posts ex_db ''5f00000000000000000000b1'' = Some ex_post" by (simp add: ex_db_def)
  have h4: "find (\<lambda>c. cmt_id c = ''5f00000000000000000000c1'') (comments ex_post) = Some ex_c1"
    by (simp add: ex_post_def ex_c1_def)
  have h5: "cmt_user ex_c1 \<noteq> ''5f00000000000000000000a1''" by (simp add: ex_c1_def)
  show ?thesis
    using h1 h2 h3 h4 h5
      removeComment_forbidden_iff [OF h1 h2 h3 h4, of "''5f00000000000000000000a1''"]
    by simp
qed

end
